theory Spec2Isabelle
  imports Complex_Main "HOL-Library.Log_Nat"
begin

section \<open>The programme management script: local data store and its consistency rules\<close>

text \<open>
  This theory embeds \<^verbatim>\<open>script.js\<close>: the localStorage wrapper, the three entity
  collections with their mutation operations, identifier generation, the derived
  statistics and the CSV export.

  Conventions of the embedding.
  \<^item> A JavaScript string is a \<open>string\<close> whose characters are the UTF-16 code units
    0 to 255 (Basic Latin and Latin-1 Supplement); \<open>of_char c\<close> is the code unit.
    White space, lower case, digits and the regular expression for emails are those of
    JavaScript on these code units. A string that holds a code unit above 255 is not
    represented.
  \<^item> A JavaScript number is a \<open>jsnum\<close>: a rational, \<open>Infinity\<close>, \<open>-Infinity\<close> or
    \<open>NaN\<close>. \<open>toDouble\<close> rounds a rational to binary64 (to the nearest value, a tie
    to the even significand, with subnormal numbers and overflow to an infinity);
    every arithmetic result and the result of \<^verbatim>\<open>parseFloat\<close> go through it. Two things
    stay exact. The sign of zero is not represented: no function here observes it (a
    cached \<^verbatim>\<open>-0\<close> is stored as \<^verbatim>\<open>0\<close>, the reports read the store, and \<^verbatim>\<open>-0\<close> is
    written and tested like \<^verbatim>\<open>0\<close>). The integers of identifier generation
    (\<^verbatim>\<open>parseInt\<close>, \<^verbatim>\<open>maxId + 1\<close>, \<^verbatim>\<open>String\<close>) are integers of HOL, which are the
    binary64 values below \<open>2 ^ 53\<close>.
  \<^item> The page state is a record that every operation takes and returns: the cache
    \<^verbatim>\<open>systemData\<close>, the four slots of \<^verbatim>\<open>localStorage\<close>, and the two things the
    environment decides (whether \<^verbatim>\<open>setItem\<close> throws for a key, whether the body has
    the class \<^verbatim>\<open>dark-mode\<close>).
  \<^item> A call that ends in \<^verbatim>\<open>showNotification(..., 'error')\<close> returns \<open>Inl\<close> of the
    error shown; the clock and the answer to \<^verbatim>\<open>confirm\<close> are arguments. The DOM calls
    that follow a successful write (closing the modal, resetting the form, refreshing
    the lists) are left out.
\<close>

subsection \<open>Strings\<close>

text \<open>
  White space and line terminators, as \<^verbatim>\<open>trim\<close>, \<^verbatim>\<open>\s\<close>, \<^verbatim>\<open>parseInt\<close> and
  \<^verbatim>\<open>parseFloat\<close> know them: tab, line feed, vertical tab, form feed, carriage return,
  space and the no-break space U+00A0.
\<close>

definition isWhiteSpace :: "char \<Rightarrow> bool" where
  "isWhiteSpace c = (of_char c \<in> {9, 10, 11, 12, 13, 32, 160 :: nat})"

definition isDigit :: "char \<Rightarrow> bool" where
  "isDigit c = (48 \<le> (of_char c :: nat) \<and> (of_char c :: nat) \<le> 57)"

definition digitVal :: "char \<Rightarrow> nat" where
  "digitVal c = of_char c - 48"

text \<open>The value of a character as a digit of the radix, as \<^verbatim>\<open>parseInt\<close> reads it.\<close>

definition radixDigit :: "nat \<Rightarrow> char \<Rightarrow> nat option" where
  "radixDigit radix c =
     (let n = (of_char c :: nat);
          v = (if 48 \<le> n \<and> n \<le> 57 then Some (n - 48)
               else if 97 \<le> n \<and> n \<le> 122 then Some (n - 87)
               else if 65 \<le> n \<and> n \<le> 90 then Some (n - 55)
               else None)
      in case v of None \<Rightarrow> None | Some d \<Rightarrow> if d < radix then Some d else None)"

text \<open>
  \<^verbatim>\<open>s.toLowerCase()\<close>: the letters A to Z, and U+00C0 to U+00DE without the
  multiplication sign U+00D7, move up by 32; every other code unit below 256 is its
  own lower case.
\<close>

definition lowerChar :: "char \<Rightarrow> char" where
  "lowerChar c =
     (let n = (of_char c :: nat)
      in if (65 \<le> n \<and> n \<le> 90) \<or> (192 \<le> n \<and> n \<le> 222 \<and> n \<noteq> 215)
         then char_of (n + 32) else c)"

definition toLowerCase :: "string \<Rightarrow> string" where
  "toLowerCase s = map lowerChar s"

definition trim :: "string \<Rightarrow> string" where
  "trim s = rev (dropWhile isWhiteSpace (rev (dropWhile isWhiteSpace s)))"

text \<open>\<^verbatim>\<open>s.replace(pat, '')\<close> with a string pattern: the first occurrence goes.\<close>

fun replaceFirst :: "string \<Rightarrow> string \<Rightarrow> string" where
  "replaceFirst pat [] = []"
| "replaceFirst pat (c # cs) =
     (if take (length pat) (c # cs) = pat then drop (length pat) (c # cs)
      else c # replaceFirst pat cs)"

definition padStart :: "nat \<Rightarrow> char \<Rightarrow> string \<Rightarrow> string" where
  "padStart n c s = replicate (n - length s) c @ s"

text \<open>\<^verbatim>\<open>xs.join(sep)\<close> on strings.\<close>

fun join :: "string \<Rightarrow> string list \<Rightarrow> string" where
  "join sep [] = []"
| "join sep [x] = x"
| "join sep (x # y # ys) = x @ sep @ join sep (y # ys)"

text \<open>\<^verbatim>\<open>s.split('T')[0]\<close>: the part before the first separator.\<close>

definition splitHead :: "char \<Rightarrow> string \<Rightarrow> string" where
  "splitHead sep s = takeWhile (\<lambda>c. c \<noteq> sep) s"

subsection \<open>Numbers\<close>

datatype jsnum = Fin rat | PosInf | NegInf | NaN

fun showNat :: "nat \<Rightarrow> string" where
  "showNat n = (if n < 10 then [char_of (48 + n)] else showNat (n div 10) @ [char_of (48 + n mod 10)])"

declare showNat.simps [simp del]

definition showInt :: "int \<Rightarrow> string" where
  "showInt i = (if i < 0 then CHR ''-'' # showNat (nat (- i)) else showNat (nat i))"

text \<open>The number a string of decimal digits denotes.\<close>

fun natOfDigits :: "string \<Rightarrow> nat" where
  "natOfDigits [] = 0"
| "natOfDigits (c # cs) = digitVal c * 10 ^ length cs + natOfDigits cs"

text \<open>
  \<^verbatim>\<open>parseInt(s)\<close> without a radix: leading white space, a sign, \<^verbatim>\<open>0x\<close> for radix 16,
  then the longest run of digits; \<open>None\<close> is \<^verbatim>\<open>NaN\<close>.
\<close>

definition parseInt :: "string \<Rightarrow> int option" where
  "parseInt s =
     (let t = dropWhile isWhiteSpace s;
          sgn = (if take 1 t = ''-'' then - 1 else 1 :: int);
          u = (if take 1 t = ''-'' \<or> take 1 t = ''+'' then drop 1 t else t);
          hex = (take 2 u = ''0x'' \<or> take 2 u = ''0X'');
          radix = (if hex then 16 else 10 :: nat);
          v = (if hex then drop 2 u else u);
          ds = takeWhile (\<lambda>c. radixDigit radix c \<noteq> None) v
      in if ds = [] then None
         else Some (sgn * int (foldl (\<lambda>a c. a * radix + (case radixDigit radix c of Some d \<Rightarrow> d | None \<Rightarrow> 0)) 0 ds)))"

fun toNumber :: "jsnum option \<Rightarrow> jsnum" where
  "toNumber None = Fin 0"
| "toNumber (Some n) = n"

fun num_neg :: "jsnum \<Rightarrow> jsnum" where
  "num_neg (Fin a) = Fin (- a)"
| "num_neg PosInf = NegInf"
| "num_neg NegInf = PosInf"
| "num_neg NaN = NaN"

text \<open>
  Rounding to binary64. \<open>binade a\<close> is the exponent \<open>e\<close> with \<open>2 ^ e \<le> a < 2 ^ (e + 1)\<close>
  of a positive rational, from the bit lengths of its numerator and denominator. A
  positive \<open>a\<close> is rounded on the grid of step \<open>2 ^ (e - 52)\<close>, the step of the
  subnormal numbers below \<open>2 ^ - 1022\<close>; a result of \<open>2 ^ 1024\<close> or more is an infinity.
\<close>

definition roundHalfEven :: "rat \<Rightarrow> int" where
  "roundHalfEven m =
     (let f = \<lfloor>m\<rfloor>; d = m - of_int f
      in if d < 1 / 2 then f else if 1 / 2 < d then f + 1 else if even f then f else f + 1)"

definition binade :: "rat \<Rightarrow> int" where
  "binade a =
     (let e0 = bitlen (fst (quotient_of a)) - bitlen (snd (quotient_of a))
      in if a < 2 powi e0 then e0 - 1 else e0)"

definition roundPos :: "rat \<Rightarrow> jsnum" where
  "roundPos a =
     (let e = max (binade a) (- 1022);
          u = 2 powi (e - 52);
          r = of_int (roundHalfEven (a / u)) * u
      in if 2 ^ 1024 \<le> r then PosInf else Fin r)"

definition toDouble :: "rat \<Rightarrow> jsnum" where
  "toDouble x = (if x = 0 then Fin 0 else if 0 < x then roundPos x else num_neg (roundPos (- x)))"

text \<open>
  \<^verbatim>\<open>parseFloat(s)\<close>: leading white space, a sign, then \<^verbatim>\<open>Infinity\<close> or the longest
  decimal literal (digits, a fraction, an exponent with at least one digit); \<open>NaN\<close>
  when neither the integer part nor the fraction has a digit. The value of the literal
  is rounded to binary64, as the engines do for a literal of any length.
\<close>

definition parseFloat :: "string \<Rightarrow> jsnum" where
  "parseFloat s =
     (let t = dropWhile isWhiteSpace s;
          neg = (take 1 t = ''-'');
          u = (if take 1 t = ''-'' \<or> take 1 t = ''+'' then drop 1 t else t)
      in if take 8 u = ''Infinity'' then (if neg then NegInf else PosInf)
         else
           let ip = takeWhile isDigit u;
               r1 = dropWhile isDigit u;
               fp = (if take 1 r1 = ''.'' then takeWhile isDigit (drop 1 r1) else []);
               r2 = (if take 1 r1 = ''.'' then dropWhile isDigit (drop 1 r1) else r1);
               hasE = (take 1 r2 = ''e'' \<or> take 1 r2 = ''E'');
               r3 = drop 1 r2;
               eneg = (take 1 r3 = ''-'');
               r4 = (if take 1 r3 = ''-'' \<or> take 1 r3 = ''+'' then drop 1 r3 else r3);
               ed = takeWhile isDigit r4;
               ex = (if hasE \<and> ed \<noteq> [] then (if eneg then - int (natOfDigits ed) else int (natOfDigits ed)) else 0);
               m = (of_nat (natOfDigits (ip @ fp)) :: rat);
               e = ex - int (length fp);
               q = (if 0 \<le> e then m * 10 ^ nat e else m / 10 ^ nat (- e))
           in if ip = [] \<and> fp = [] then NaN else toDouble (if neg then - q else q))"

fun num_add :: "jsnum \<Rightarrow> jsnum \<Rightarrow> jsnum" where
  "num_add (Fin a) (Fin b) = toDouble (a + b)"
| "num_add NaN _ = NaN"
| "num_add _ NaN = NaN"
| "num_add PosInf NegInf = NaN"
| "num_add NegInf PosInf = NaN"
| "num_add PosInf _ = PosInf"
| "num_add _ PosInf = PosInf"
| "num_add NegInf _ = NegInf"
| "num_add _ NegInf = NegInf"

definition num_sub :: "jsnum \<Rightarrow> jsnum \<Rightarrow> jsnum" where
  "num_sub a b = num_add a (num_neg b)"

text \<open>Sign of a non-NaN number: zero counts as positive.\<close>

fun num_nonneg :: "jsnum \<Rightarrow> bool" where
  "num_nonneg (Fin a) = (0 \<le> a)"
| "num_nonneg PosInf = True"
| "num_nonneg NegInf = False"
| "num_nonneg NaN = True"

fun num_mul :: "jsnum \<Rightarrow> jsnum \<Rightarrow> jsnum" where
  "num_mul (Fin a) (Fin b) = toDouble (a * b)"
| "num_mul NaN _ = NaN"
| "num_mul _ NaN = NaN"
| "num_mul (Fin a) y = (if a = 0 then NaN else if (0 < a) = num_nonneg y then PosInf else NegInf)"
| "num_mul x (Fin b) = (if b = 0 then NaN else if (0 < b) = num_nonneg x then PosInf else NegInf)"
| "num_mul x y = (if num_nonneg x = num_nonneg y then PosInf else NegInf)"

fun num_div :: "jsnum \<Rightarrow> jsnum \<Rightarrow> jsnum" where
  "num_div (Fin a) (Fin b) =
     (if b = 0 then (if a = 0 then NaN else if 0 < a then PosInf else NegInf)
      else toDouble (a / b))"
| "num_div NaN _ = NaN"
| "num_div _ NaN = NaN"
| "num_div (Fin a) _ = Fin 0"
| "num_div x (Fin b) = (if (0 \<le> b) = num_nonneg x then PosInf else NegInf)"
| "num_div _ _ = NaN"

text \<open>
  \<^verbatim>\<open>Math.round\<close>: to the nearest integer, a tie going up. The result of rounding a
  binary64 value this way is a binary64 value.
\<close>

definition Math_round_rat :: "rat \<Rightarrow> int" where
  "Math_round_rat x = \<lfloor>x + 1 / 2\<rfloor>"

fun Math_round :: "jsnum \<Rightarrow> jsnum" where
  "Math_round (Fin a) = Fin (of_int (Math_round_rat a))"
| "Math_round x = x"

text \<open>
  \<^verbatim>\<open>String(n)\<close>. An integer below \<open>10 ^ 21\<close> in magnitude is written in decimal digits;
  every other finite number is written by \<open>fmt\<close>, which stands for the part of
  \<^verbatim>\<open>Number::toString\<close> that depends on the binary64 digits.
\<close>

definition numToString :: "(rat \<Rightarrow> string) \<Rightarrow> jsnum \<Rightarrow> string" where
  "numToString fmt n =
     (case n of
        NaN \<Rightarrow> ''NaN''
      | PosInf \<Rightarrow> ''Infinity''
      | NegInf \<Rightarrow> ''-Infinity''
      | Fin q \<Rightarrow> if of_int \<lfloor>q\<rfloor> = q \<and> \<bar>q\<bar> < 10 ^ 21 then showInt \<lfloor>q\<rfloor> else fmt q)"

subsection \<open>Entities\<close>

text \<open>
  The records the script builds. The numeric fields of a participant are only ever
  written as \<^verbatim>\<open>0\<close>; an amount comes from \<^verbatim>\<open>parseFloat\<close> in the cache
  (\<open>jsnum option\<close>, \<open>None\<close> for \<^verbatim>\<open>null\<close>) and is a JSON number or \<^verbatim>\<open>null\<close> in the
  store (\<open>rat option\<close>).
\<close>

record participant =
  p_id :: string
  p_name :: string
  p_email :: string
  p_phone :: string
  p_programme :: string
  p_startDate :: string
  p_progress :: rat
  p_status :: string
  p_notes :: string
  p_attendance :: rat
  p_revenue :: rat
  p_jobs :: rat
  p_createdAt :: string
  p_updatedAt :: "string option"

record 'a budgetItem =
  b_category :: string
  b_amount :: 'a
  b_priority :: string
  b_description :: string
  b_dateAdded :: string
  b_createdAt :: string

record 'a expense =
  e_id :: string
  e_category :: string
  e_amount :: 'a
  e_date :: string
  e_description :: string
  e_createdAt :: string

record settings =
  theme :: string

text \<open>\<^verbatim>\<open>JSON.stringify\<close> writes a number that is not finite as \<^verbatim>\<open>null\<close>.\<close>

fun stringifyNumber :: "jsnum option \<Rightarrow> rat option" where
  "stringifyNumber (Some (Fin q)) = Some q"
| "stringifyNumber _ = None"

definition parseNumber :: "rat option \<Rightarrow> jsnum option" where
  "parseNumber j = map_option Fin j"

definition stringifyBudgetItem :: "jsnum option budgetItem \<Rightarrow> rat option budgetItem" where
  "stringifyBudgetItem b =
     \<lparr>b_category = b_category b, b_amount = stringifyNumber (b_amount b),
      b_priority = b_priority b, b_description = b_description b,
      b_dateAdded = b_dateAdded b, b_createdAt = b_createdAt b\<rparr>"

definition parseBudgetItem :: "rat option budgetItem \<Rightarrow> jsnum option budgetItem" where
  "parseBudgetItem b =
     \<lparr>b_category = b_category b, b_amount = parseNumber (b_amount b),
      b_priority = b_priority b, b_description = b_description b,
      b_dateAdded = b_dateAdded b, b_createdAt = b_createdAt b\<rparr>"

definition stringifyExpense :: "jsnum option expense \<Rightarrow> rat option expense" where
  "stringifyExpense e =
     \<lparr>e_id = e_id e, e_category = e_category e, e_amount = stringifyNumber (e_amount e),
      e_date = e_date e, e_description = e_description e, e_createdAt = e_createdAt e\<rparr>"

definition parseExpense :: "rat option expense \<Rightarrow> jsnum option expense" where
  "parseExpense e =
     \<lparr>e_id = e_id e, e_category = e_category e, e_amount = parseNumber (e_amount e),
      e_date = e_date e, e_description = e_description e, e_createdAt = e_createdAt e\<rparr>"

subsection \<open>The page state and the storage wrapper\<close>

record state =
  sd_participants :: "participant list"
  sd_budgetItems :: "jsnum option budgetItem list"
  sd_expenses :: "jsnum option expense list"
  sd_settings :: settings
  ls_participants :: "participant list option"
  ls_budgetItems :: "rat option budgetItem list option"
  ls_expenses :: "rat option expense list option"
  ls_settings :: "settings option"
  setItemThrows :: "string \<Rightarrow> bool"
  darkMode :: bool

text \<open>
  \<^verbatim>\<open>storage.get(key, defaultValue)\<close>: the parsed slot, the default when the slot is
  empty. \<^verbatim>\<open>storage.set(key, value)\<close>: the slot is written unless \<^verbatim>\<open>setItem\<close>
  throws, in which case the wrapper catches and the slot keeps its value; no caller
  reads the boolean it returns.
\<close>

definition storage_get :: "'a option \<Rightarrow> 'a \<Rightarrow> 'a" where
  "storage_get item defaultValue = (case item of Some v \<Rightarrow> v | None \<Rightarrow> defaultValue)"

definition storage_set_participants :: "participant list \<Rightarrow> state \<Rightarrow> state" where
  "storage_set_participants v st =
     (if setItemThrows st ''participants'' then st else st\<lparr>ls_participants := Some v\<rparr>)"

definition storage_set_budgetItems :: "jsnum option budgetItem list \<Rightarrow> state \<Rightarrow> state" where
  "storage_set_budgetItems v st =
     (if setItemThrows st ''budgetItems'' then st
      else st\<lparr>ls_budgetItems := Some (map stringifyBudgetItem v)\<rparr>)"

definition storage_set_expenses :: "jsnum option expense list \<Rightarrow> state \<Rightarrow> state" where
  "storage_set_expenses v st =
     (if setItemThrows st ''expenses'' then st
      else st\<lparr>ls_expenses := Some (map stringifyExpense v)\<rparr>)"

definition storage_set_settings :: "settings \<Rightarrow> state \<Rightarrow> state" where
  "storage_set_settings v st =
     (if setItemThrows st ''settings'' then st else st\<lparr>ls_settings := Some v\<rparr>)"

definition saveData :: "state \<Rightarrow> state" where
  "saveData st =
     (let st1 = storage_set_participants (sd_participants st) st;
          st2 = storage_set_budgetItems (sd_budgetItems st1) st1;
          st3 = storage_set_expenses (sd_expenses st2) st2
      in storage_set_settings (sd_settings st3) st3)"

definition getParticipants :: "state \<Rightarrow> participant list" where
  "getParticipants st = storage_get (ls_participants st) []"

definition saveParticipants :: "participant list \<Rightarrow> state \<Rightarrow> state" where
  "saveParticipants participants st =
     storage_set_participants participants (st\<lparr>sd_participants := participants\<rparr>)"

definition getBudgetItems :: "state \<Rightarrow> jsnum option budgetItem list" where
  "getBudgetItems st = map parseBudgetItem (storage_get (ls_budgetItems st) [])"

definition saveBudgetItems :: "jsnum option budgetItem list \<Rightarrow> state \<Rightarrow> state" where
  "saveBudgetItems budgetItems st =
     storage_set_budgetItems budgetItems (st\<lparr>sd_budgetItems := budgetItems\<rparr>)"

definition getExpenses :: "state \<Rightarrow> jsnum option expense list" where
  "getExpenses st = map parseExpense (storage_get (ls_expenses st) [])"

definition saveExpenses :: "jsnum option expense list \<Rightarrow> state \<Rightarrow> state" where
  "saveExpenses expenses st =
     storage_set_expenses expenses (st\<lparr>sd_expenses := expenses\<rparr>)"

subsection \<open>Theme\<close>

text \<open>
  \<^verbatim>\<open>toggleTheme\<close>: the class on the body flips, the cached setting follows it, and
  \<^verbatim>\<open>saveData\<close> writes all four slots from the cache.
\<close>

definition toggleTheme :: "state \<Rightarrow> state" where
  "toggleTheme st =
     (let st1 = st\<lparr>darkMode := \<not> darkMode st\<rparr>;
          isDark = darkMode st1;
          st2 = st1\<lparr>sd_settings := (sd_settings st1)\<lparr>theme := (if isDark then ''dark'' else ''light'')\<rparr>\<rparr>
      in saveData st2)"

subsection \<open>Validation\<close>

datatype error =
    CustomProgrammeMissing
  | RequiredFieldsMissing
  | InvalidEmail
  | EmailExists
  | CategoryExists
  | BudgetItemNotFound
  | NoDataForExport

text \<open>
  The regular expression \<^verbatim>\<open>/^[^\s@]+@[^\s@]+\.[^\s@]+$/\<close>: no white space, exactly
  one \<^verbatim>\<open>@\<close> with something before it, and after it a dot that is neither the first
  nor the last character.
\<close>

definition isValidEmail :: "string \<Rightarrow> bool" where
  "isValidEmail email =
     (let local = takeWhile (\<lambda>c. c \<noteq> CHR ''@'') email;
          rest = dropWhile (\<lambda>c. c \<noteq> CHR ''@'') email;
          dom = drop 1 rest
      in local \<noteq> [] \<and> rest \<noteq> [] \<and> \<not> list_ex isWhiteSpace email
         \<and> \<not> list_ex (\<lambda>c. c = CHR ''@'') dom
         \<and> list_ex (\<lambda>c. c = CHR ''.'') (butlast (tl dom)))"

text \<open>
  A value of \<^verbatim>\<open>FormData.get\<close> is a string or \<^verbatim>\<open>null\<close>. \<open>falsy\<close> is \<^verbatim>\<open>!v\<close>,
  \<open>orEmpty\<close> is \<^verbatim>\<open>v || ''\<close>.
\<close>

fun falsy :: "string option \<Rightarrow> bool" where
  "falsy None = True"
| "falsy (Some s) = (s = [])"

fun orEmpty :: "string option \<Rightarrow> string" where
  "orEmpty None = []"
| "orEmpty (Some s) = s"

subsection \<open>Participants\<close>

record participantForm =
  f_name :: "string option"
  f_email :: "string option"
  f_phone :: "string option"
  f_programme :: "string option"
  f_customProgramme :: "string option"
  f_startDate :: "string option"
  f_notes :: "string option"

text \<open>The \<^verbatim>\<open>forEach\<close> of \<^verbatim>\<open>generateParticipantId\<close>: \<^verbatim>\<open>NaN > maxId\<close> is false.\<close>

definition maxParticipantId :: "participant list \<Rightarrow> int" where
  "maxParticipantId participants =
     fold (\<lambda>p maxId. case parseInt (replaceFirst ''P'' (p_id p)) of
                        None \<Rightarrow> maxId
                      | Some idNum \<Rightarrow> if idNum > maxId then idNum else maxId)
          participants 0"

definition generateParticipantId :: "state \<Rightarrow> string" where
  "generateParticipantId st =
     (let participants = getParticipants st;
          maxId = maxParticipantId participants
      in ''P'' @ padStart 3 (CHR ''0'') (showInt (maxId + 1)))"

definition addParticipant :: "string \<Rightarrow> participantForm \<Rightarrow> state \<Rightarrow> (error + participant) \<times> state" where
  "addParticipant now form st =
     (if f_programme form = Some ''custom''
         \<and> (falsy (f_customProgramme form) \<or> trim (orEmpty (f_customProgramme form)) = [])
      then (Inl CustomProgrammeMissing, st)
      else
        let programme = (if f_programme form = Some ''custom''
                         then Some (trim (orEmpty (f_customProgramme form)))
                         else f_programme form)
        in if falsy (f_name form) \<or> falsy (f_email form) \<or> falsy programme \<or> falsy (f_startDate form)
           then (Inl RequiredFieldsMissing, st)
           else if \<not> isValidEmail (orEmpty (f_email form))
           then (Inl InvalidEmail, st)
           else
             let participants = getParticipants st
             in if list_ex (\<lambda>p. Some (p_email p) = f_email form) participants
                then (Inl EmailExists, st)
                else
                  let newParticipant =
                        \<lparr>p_id = generateParticipantId st,
                         p_name = orEmpty (f_name form),
                         p_email = orEmpty (f_email form),
                         p_phone = orEmpty (f_phone form),
                         p_programme = orEmpty programme,
                         p_startDate = orEmpty (f_startDate form),
                         p_progress = 0,
                         p_status = ''Active'',
                         p_notes = orEmpty (f_notes form),
                         p_attendance = 0,
                         p_revenue = 0,
                         p_jobs = 0,
                         p_createdAt = now,
                         p_updatedAt = None\<rparr>
                  in (Inr newParticipant, saveParticipants (participants @ [newParticipant]) st))"

text \<open>
  The form as \<^verbatim>\<open>addParticipant\<close> wants it: name, email, programme and start date are
  filled in, a \<^verbatim>\<open>custom\<close> programme comes with a name that is not blank, and the
  email has the format of \<open>isValidEmail\<close>.
\<close>

definition requiredFieldsValid :: "participantForm \<Rightarrow> bool" where
  "requiredFieldsValid form =
     (\<not> falsy (f_name form) \<and> \<not> falsy (f_email form) \<and> \<not> falsy (f_startDate form)
      \<and> \<not> falsy (f_programme form)
      \<and> (if f_programme form = Some ''custom'' then trim (orEmpty (f_customProgramme form)) \<noteq> [] else True)
      \<and> isValidEmail (orEmpty (f_email form)))"

subsection \<open>Success rate\<close>




subsection \<open>Budget items and expenses\<close>

record budgetForm =
  bf_category :: "string option"
  bf_amount :: "string option"
  bf_priority :: "string option"
  bf_description :: "string option"

definition addBudgetItem :: "string \<Rightarrow> budgetForm \<Rightarrow> state \<Rightarrow> (error + jsnum option budgetItem) \<times> state" where
  "addBudgetItem now form st =
     (if falsy (bf_category form) \<or> falsy (bf_amount form) \<or> falsy (bf_priority form)
      then (Inl RequiredFieldsMissing, st)
      else
        let budgetItems = getBudgetItems st
        in if list_ex (\<lambda>item. toLowerCase (b_category item) = toLowerCase (orEmpty (bf_category form)))
                      budgetItems
           then (Inl CategoryExists, st)
           else
             let newBudgetItem =
                   \<lparr>b_category = orEmpty (bf_category form),
                    b_amount = Some (parseFloat (orEmpty (bf_amount form))),
                    b_priority = orEmpty (bf_priority form),
                    b_description = orEmpty (bf_description form),
                    b_dateAdded = splitHead (CHR ''T'') now,
                    b_createdAt = now\<rparr>
             in (Inr newBudgetItem, saveBudgetItems (budgetItems @ [newBudgetItem]) st))"

text \<open>\<^verbatim>\<open>xs.splice(i, 1)\<close> for an index within the array.\<close>

definition splice1 :: "nat \<Rightarrow> 'a list \<Rightarrow> 'a list" where
  "splice1 i xs = take i xs @ drop (Suc i) xs"

text \<open>
  \<^verbatim>\<open>removeBudgetItem(index)\<close>: \<open>None\<close> when the user declines the \<^verbatim>\<open>confirm\<close>
  dialog, which ends the call before anything is read.
\<close>

definition removeBudgetItem :: "bool \<Rightarrow> int \<Rightarrow> state \<Rightarrow> (error + unit) option \<times> state" where
  "removeBudgetItem confirmed index st =
     (if \<not> confirmed then (None, st)
      else
        let budgetItems = getBudgetItems st
        in if index < 0 \<or> index \<ge> int (length budgetItems)
           then (Some (Inl BudgetItemNotFound), st)
           else (Some (Inr ()), saveBudgetItems (splice1 (nat index) budgetItems) st))"

definition maxExpenseId :: "jsnum option expense list \<Rightarrow> int" where
  "maxExpenseId expenses =
     fold (\<lambda>e maxId. case parseInt (replaceFirst ''EXP'' (e_id e)) of
                        None \<Rightarrow> maxId
                      | Some idNum \<Rightarrow> if idNum > maxId then idNum else maxId)
          expenses 0"

definition generateExpenseId :: "state \<Rightarrow> string" where
  "generateExpenseId st =
     (let expenses = getExpenses st;
          maxId = maxExpenseId expenses
      in ''EXP'' @ padStart 3 (CHR ''0'') (showInt (maxId + 1)))"

record expenseForm =
  ef_category :: "string option"
  ef_amount :: "string option"
  ef_date :: "string option"
  ef_description :: "string option"

definition addExpense :: "string \<Rightarrow> expenseForm \<Rightarrow> state \<Rightarrow> (error + jsnum option expense) \<times> state" where
  "addExpense now form st =
     (if falsy (ef_category form) \<or> falsy (ef_amount form) \<or> falsy (ef_date form)
         \<or> falsy (ef_description form)
      then (Inl RequiredFieldsMissing, st)
      else
        let expenses = getExpenses st;
            newExpense =
              \<lparr>e_id = generateExpenseId st,
               e_category = orEmpty (ef_category form),
               e_amount = Some (parseFloat (orEmpty (ef_amount form))),
               e_date = orEmpty (ef_date form),
               e_description = orEmpty (ef_description form),
               e_createdAt = now\<rparr>
        in (Inr newExpense, saveExpenses (expenses @ [newExpense]) st))"

subsection \<open>Identifier format\<close>

text \<open>
  An identifier as the data model has it: the prefix of the entity followed by a
  numeric suffix, a non-empty string of decimal digits. At most 15 digits keep the
  suffix and its successor below \<open>2 ^ 53\<close>, where a JavaScript number is the integer
  it stands for. \<open>numericSuffix\<close> is the number the suffix denotes.
\<close>

definition wellFormedId :: "string \<Rightarrow> string \<Rightarrow> bool" where
  "wellFormedId prefix s =
     (take (length prefix) s = prefix
      \<and> drop (length prefix) s \<noteq> []
      \<and> list_all isDigit (drop (length prefix) s)
      \<and> length (drop (length prefix) s) \<le> 15)"

definition numericSuffix :: "string \<Rightarrow> string \<Rightarrow> nat" where
  "numericSuffix prefix s = natOfDigits (drop (length prefix) s)"

text \<open>
  The number id generation reads from an identifier: what \<^verbatim>\<open>parseInt\<close> makes of it
  once the first occurrence of the prefix is gone, and 0 when \<^verbatim>\<open>parseInt\<close> fails.
\<close>

definition parsedIdNumber :: "string \<Rightarrow> string \<Rightarrow> int" where
  "parsedIdNumber prefix s = (case parseInt (replaceFirst prefix s) of None \<Rightarrow> 0 | Some n \<Rightarrow> n)"

subsection \<open>CSV export\<close>

datatype jsval = JNum jsnum | JStr string | JBool bool | JNull | JUndef

text \<open>An object literal: its properties in the order they were written.\<close>

type_synonym object = "(string \<times> jsval) list"

fun truthy :: "jsval \<Rightarrow> bool" where
  "truthy (JNum n) = (n \<noteq> Fin 0 \<and> n \<noteq> NaN)"
| "truthy (JStr s) = (s \<noteq> [])"
| "truthy (JBool b) = b"
| "truthy JNull = False"
| "truthy JUndef = False"

definition getProp :: "object \<Rightarrow> string \<Rightarrow> jsval" where
  "getProp row header = (case map_of row header of Some v \<Rightarrow> v | None \<Rightarrow> JUndef)"

definition quoteCsv :: "string \<Rightarrow> string" where
  "quoteCsv s = [CHR 0x22] @ concat (map (\<lambda>c. if c = CHR 0x22 then [c, c] else [c]) s) @ [CHR 0x22]"

text \<open>The inner function of \<^verbatim>\<open>downloadCSV\<close>: \<^verbatim>\<open>row[header] || ''\<close>, quoted when needed.\<close>

definition csvCell :: "jsval \<Rightarrow> jsval" where
  "csvCell v =
     (let value = (if truthy v then v else JStr [])
      in case value of
           JStr s \<Rightarrow> if CHR '','' \<in> set s \<or> CHR 0x22 \<in> set s then JStr (quoteCsv s) else value
         | _ \<Rightarrow> value)"

text \<open>What \<^verbatim>\<open>Array.prototype.join\<close> writes for an element.\<close>

fun joinItem :: "(rat \<Rightarrow> string) \<Rightarrow> jsval \<Rightarrow> string" where
  "joinItem fmt (JNum n) = numToString fmt n"
| "joinItem fmt (JStr s) = s"
| "joinItem fmt (JBool b) = (if b then ''true'' else ''false'')"
| "joinItem fmt JNull = []"
| "joinItem fmt JUndef = []"

definition csvCells :: "(rat \<Rightarrow> string) \<Rightarrow> string list \<Rightarrow> object \<Rightarrow> string list" where
  "csvCells fmt headers row = map (\<lambda>header. joinItem fmt (csvCell (getProp row header))) headers"

text \<open>
  \<^verbatim>\<open>downloadCSV(data, filename)\<close> up to \<^verbatim>\<open>csvContent\<close>, the text handed to the
  \<^verbatim>\<open>Blob\<close>.
\<close>

definition downloadCSV :: "(rat \<Rightarrow> string) \<Rightarrow> object list \<Rightarrow> error + string" where
  "downloadCSV fmt data =
     (case data of
        [] \<Rightarrow> Inl NoDataForExport
      | first # _ \<Rightarrow>
          let headers = map fst first
          in Inr (join [CHR 0x0A]
                   (join '','' headers # map (\<lambda>row. join '','' (csvCells fmt headers row)) data)))"

subsection \<open>Participant report\<close>

text \<open>
  A participant as the object that \<^verbatim>\<open>JSON.parse\<close> returns: the properties in the
  order \<^verbatim>\<open>addParticipant\<close> writes them, \<^verbatim>\<open>updatedAt\<close> last when it was set.
\<close>

definition participantObject :: "participant \<Rightarrow> object" where
  "participantObject p =
     [(''id'', JStr (p_id p)),
      (''name'', JStr (p_name p)),
      (''email'', JStr (p_email p)),
      (''phone'', JStr (p_phone p)),
      (''programme'', JStr (p_programme p)),
      (''startDate'', JStr (p_startDate p)),
      (''progress'', JNum (Fin (p_progress p))),
      (''status'', JStr (p_status p)),
      (''notes'', JStr (p_notes p)),
      (''attendance'', JNum (Fin (p_attendance p))),
      (''revenue'', JNum (Fin (p_revenue p))),
      (''jobs'', JNum (Fin (p_jobs p))),
      (''createdAt'', JStr (p_createdAt p))]
     @ (case p_updatedAt p of None \<Rightarrow> [] | Some u \<Rightarrow> [(''updatedAt'', JStr u)])"

definition generateReport :: "(rat \<Rightarrow> string) \<Rightarrow> state \<Rightarrow> error + string" where
  "generateReport fmt st =
     (let participants = getParticipants st
      in downloadCSV fmt (map participantObject participants))"

subsection \<open>Monthly budget report\<close>

fun amountValue :: "jsnum option \<Rightarrow> jsval" where
  "amountValue None = JNull"
| "amountValue (Some n) = JNum n"

definition spentOn :: "string \<Rightarrow> jsnum option expense list \<Rightarrow> jsnum" where
  "spentOn category expenses =
     foldl (\<lambda>sum e. num_add sum (toNumber (e_amount e))) (Fin 0)
           (filter (\<lambda>e. e_category e = category) expenses)"

text \<open>The \<^verbatim>\<open>reportData\<close> of \<^verbatim>\<open>generateMonthlyReport\<close>.\<close>

definition reportData :: "(rat \<Rightarrow> string) \<Rightarrow> jsnum option budgetItem list \<Rightarrow> jsnum option expense list \<Rightarrow> object list" where
  "reportData fmt budgetItems expenses =
     map (\<lambda>item.
            let spent = spentOn (b_category item) expenses
            in [(''Category'', JStr (b_category item)),
                (''Budget'', amountValue (b_amount item)),
                (''Spent'', JNum spent),
                (''Remaining'', JNum (num_sub (toNumber (b_amount item)) spent)),
                (''Utilization'',
                   JStr (numToString fmt
                           (Math_round (num_mul (num_div spent (toNumber (b_amount item))) (Fin 100)))
                         @ ''%''))])
         budgetItems"

definition generateMonthlyReport :: "(rat \<Rightarrow> string) \<Rightarrow> state \<Rightarrow> error + string" where
  "generateMonthlyReport fmt st =
     (let budgetItems = getBudgetItems st;
          expenses = getExpenses st
      in downloadCSV fmt (reportData fmt budgetItems expenses))"

subsection \<open>Sample data\<close>

text \<open>A page with empty storage, the light theme and a store that accepts every write.\<close>

definition freshState :: state where
  "freshState =
     \<lparr>sd_participants = [], sd_budgetItems = [], sd_expenses = [],
      sd_settings = \<lparr>theme = ''light''\<rparr>,
      ls_participants = None, ls_budgetItems = None, ls_expenses = None, ls_settings = None,
      setItemThrows = (\<lambda>key. False), darkMode = False\<rparr>"

definition sampleParticipant :: "string \<Rightarrow> string \<Rightarrow> string \<Rightarrow> participant" where
  "sampleParticipant i email status =
     \<lparr>p_id = i, p_name = ''Thandi'', p_email = email, p_phone = [],
      p_programme = ''skills'', p_startDate = ''2025-01-01'', p_progress = 0,
      p_status = status, p_notes = [], p_attendance = 0, p_revenue = 0, p_jobs = 0,
      p_createdAt = ''2025-01-01T08:00:00.000Z'', p_updatedAt = None\<rparr>"


definition sampleForm :: "string \<Rightarrow> participantForm" where
  "sampleForm email =
     \<lparr>f_name = Some ''Sipho'', f_email = Some email, f_phone = None,
      f_programme = Some ''skills'', f_customProgramme = None,
      f_startDate = Some ''2025-02-01'', f_notes = None\<rparr>"

definition sampleBudgetItem :: "string \<Rightarrow> 'a \<Rightarrow> 'a budgetItem" where
  "sampleBudgetItem category amount =
     \<lparr>b_category = category, b_amount = amount, b_priority = ''High'', b_description = [],
      b_dateAdded = ''2025-01-01'', b_createdAt = ''2025-01-01T08:00:00.000Z''\<rparr>"

definition sampleExpense :: "string \<Rightarrow> string \<Rightarrow> 'a \<Rightarrow> 'a expense" where
  "sampleExpense i category amount =
     \<lparr>e_id = i, e_category = category, e_amount = amount, e_date = ''2025-01-15'',
      e_description = ''venue'', e_createdAt = ''2025-01-15T08:00:00.000Z''\<rparr>"

definition sampleBudgetForm :: "string \<Rightarrow> string \<Rightarrow> budgetForm" where
  "sampleBudgetForm category amount =
     \<lparr>bf_category = Some category, bf_amount = Some amount, bf_priority = Some ''High'',
      bf_description = None\<rparr>"

definition sampleExpenseForm :: "string \<Rightarrow> string \<Rightarrow> expenseForm" where
  "sampleExpenseForm category amount =
     \<lparr>ef_category = Some category, ef_amount = Some amount, ef_date = Some ''2025-01-15'',
      ef_description = Some ''venue''\<rparr>"

section \<open>Properties\<close>

subsection \<open>Auxiliary facts\<close>

lemma falsy_orEmpty: "falsy x \<longleftrightarrow> orEmpty x = []"
  by (cases x) auto

lemma trim_Nil: "trim [] = []"
  by (simp add: trim_def)

subsection \<open>Rounding to binary64\<close>


lemma roundHalfEven_int: "roundHalfEven (of_int k) = k"
  by (simp add: roundHalfEven_def)







subsection \<open>Success rate\<close>













subsection \<open>Creating a participant\<close>

text \<open>
  C3. When the email of the form equals the email of a participant in the stored
  collection, \<^verbatim>\<open>addParticipant\<close> ends in one of its error notifications and the
  state, the stored collection included, is what it was; when the form passes the
  checks on its fields, the error is the one for an email that already exists.
\<close>

theorem addParticipant_duplicate_email:
  assumes "f_email form = Some email"
      and "list_ex (\<lambda>p. p_email p = email) (getParticipants st)"
  shows "snd (addParticipant now form st) = st
         \<and> fst (addParticipant now form st)
             \<in> {Inl CustomProgrammeMissing, Inl RequiredFieldsMissing, Inl InvalidEmail, Inl EmailExists}
         \<and> (if requiredFieldsValid form then fst (addParticipant now form st) = Inl EmailExists else True)"
  using assms
  by (auto simp add: addParticipant_def requiredFieldsValid_def Let_def falsy_orEmpty trim_Nil)

theorem addParticipant_duplicate_email_witness:
  "snd (addParticipant ''2025-03-01T10:00:00.000Z'' (sampleForm ''a@b.c'')
          (freshState\<lparr>ls_participants := Some [sampleParticipant ''P001'' ''a@b.c'' ''Active'']\<rparr>))
     = freshState\<lparr>ls_participants := Some [sampleParticipant ''P001'' ''a@b.c'' ''Active'']\<rparr>
   \<and> fst (addParticipant ''2025-03-01T10:00:00.000Z'' (sampleForm ''a@b.c'')
          (freshState\<lparr>ls_participants := Some [sampleParticipant ''P001'' ''a@b.c'' ''Active'']\<rparr>))
     = Inl EmailExists"
proof -
  let ?st = "freshState\<lparr>ls_participants := Some [sampleParticipant ''P001'' ''a@b.c'' ''Active'']\<rparr>"
  have e: "f_email (sampleForm ''a@b.c'') = Some ''a@b.c''"
    by (simp add: sampleForm_def)
  have d: "list_ex (\<lambda>p. p_email p = ''a@b.c'') (getParticipants ?st)"
    by (simp add: getParticipants_def storage_get_def sampleParticipant_def)
  have v: "requiredFieldsValid (sampleForm ''a@b.c'')"
    by (simp add: requiredFieldsValid_def sampleForm_def isValidEmail_def isWhiteSpace_def)
  show ?thesis
    using addParticipant_duplicate_email [OF e d, of "''2025-03-01T10:00:00.000Z''"] v by simp
qed

text \<open>
  C7. When the form passes the checks on its fields and its email is the email of no
  stored participant, \<^verbatim>\<open>addParticipant\<close> creates a record with that email, status
  \<^verbatim>\<open>Active\<close>, progress 0 and attendance, revenue and jobs 0; the cached collection
  is the stored one followed by the record, and so is the stored collection, one
  longer than before, when \<^verbatim>\<open>setItem\<close> accepts the write (otherwise the stored
  collection keeps its value).
\<close>

theorem addParticipant_new_email:
  assumes "requiredFieldsValid form"
      and "f_email form = Some email"
      and "\<not> list_ex (\<lambda>p. p_email p = email) (getParticipants st)"
  shows "\<exists>newParticipant.
           fst (addParticipant now form st) = Inr newParticipant
           \<and> p_email newParticipant = email
           \<and> p_status newParticipant = ''Active''
           \<and> p_progress newParticipant = 0
           \<and> p_attendance newParticipant = 0
           \<and> p_revenue newParticipant = 0
           \<and> p_jobs newParticipant = 0
           \<and> sd_participants (snd (addParticipant now form st)) = getParticipants st @ [newParticipant]
           \<and> (if setItemThrows st ''participants''
               then getParticipants (snd (addParticipant now form st)) = getParticipants st
               else getParticipants (snd (addParticipant now form st)) = getParticipants st @ [newParticipant]
                    \<and> length (getParticipants (snd (addParticipant now form st)))
                        = length (getParticipants st) + 1)"
  using assms
  by (auto simp add: addParticipant_def requiredFieldsValid_def Let_def saveParticipants_def
      storage_set_participants_def getParticipants_def storage_get_def falsy_orEmpty trim_Nil
      split: if_splits)

theorem addParticipant_new_email_witness:
  "fst (addParticipant ''2025-03-01T10:00:00.000Z'' (sampleForm ''x@y.z'')
          (freshState\<lparr>ls_participants := Some [sampleParticipant ''P001'' ''a@b.c'' ''Active'']\<rparr>))
     = Inr ((sampleParticipant ''P002'' ''x@y.z'' ''Active'')
              \<lparr>p_name := ''Sipho'', p_startDate := ''2025-02-01'',
               p_createdAt := ''2025-03-01T10:00:00.000Z''\<rparr>)
   \<and> getParticipants (snd (addParticipant ''2025-03-01T10:00:00.000Z'' (sampleForm ''x@y.z'')
          (freshState\<lparr>ls_participants := Some [sampleParticipant ''P001'' ''a@b.c'' ''Active'']\<rparr>)))
     = [sampleParticipant ''P001'' ''a@b.c'' ''Active'',
        (sampleParticipant ''P002'' ''x@y.z'' ''Active'')
              \<lparr>p_name := ''Sipho'', p_startDate := ''2025-02-01'',
               p_createdAt := ''2025-03-01T10:00:00.000Z''\<rparr>]"
proof -
  let ?st = "freshState\<lparr>ls_participants := Some [sampleParticipant ''P001'' ''a@b.c'' ''Active'']\<rparr>"
  have v: "requiredFieldsValid (sampleForm ''x@y.z'')"
    by (simp add: requiredFieldsValid_def sampleForm_def isValidEmail_def isWhiteSpace_def)
  have e: "f_email (sampleForm ''x@y.z'') = Some ''x@y.z''"
    by (simp add: sampleForm_def)
  have n: "\<not> list_ex (\<lambda>p. p_email p = ''x@y.z'') (getParticipants ?st)"
    by (simp add: getParticipants_def storage_get_def sampleParticipant_def)
  have w: "\<not> setItemThrows ?st ''participants''"
    by (simp add: freshState_def)
  have g: "getParticipants ?st = [sampleParticipant ''P001'' ''a@b.c'' ''Active'']"
    by (simp add: getParticipants_def storage_get_def)
  have i: "generateParticipantId ?st = ''P002''"
    unfolding generateParticipantId_def g Let_def maxParticipantId_def by code_simp
  have f: "fst (addParticipant ''2025-03-01T10:00:00.000Z'' (sampleForm ''x@y.z'') ?st)
     = Inr ((sampleParticipant ''P002'' ''x@y.z'' ''Active'')
              \<lparr>p_name := ''Sipho'', p_startDate := ''2025-02-01'',
               p_createdAt := ''2025-03-01T10:00:00.000Z''\<rparr>)"
    using v n
    apply (simp add: addParticipant_def Let_def requiredFieldsValid_def i sampleForm_def)
    apply (simp add: sampleParticipant_def)
    done
  from addParticipant_new_email [OF v e n, of "''2025-03-01T10:00:00.000Z''"] w
  show ?thesis
    unfolding f g by auto
qed

subsection \<open>Theme\<close>

text \<open>
  C10. \<^verbatim>\<open>toggleTheme\<close> flips the theme and then writes, besides the settings, the
  cached participants, budget items and expenses to their storage keys: every slot
  whose write \<^verbatim>\<open>setItem\<close> accepts holds the cached collection afterwards, whatever
  it held before, and the cache itself changes in the theme only.
\<close>

theorem toggleTheme_saves_cache:
  "darkMode (toggleTheme st) = (\<not> darkMode st)
   \<and> sd_settings (toggleTheme st) = (sd_settings st)\<lparr>theme := (if darkMode st then ''light'' else ''dark'')\<rparr>
   \<and> sd_participants (toggleTheme st) = sd_participants st
   \<and> sd_budgetItems (toggleTheme st) = sd_budgetItems st
   \<and> sd_expenses (toggleTheme st) = sd_expenses st
   \<and> ls_participants (toggleTheme st)
       = (if setItemThrows st ''participants'' then ls_participants st else Some (sd_participants st))
   \<and> ls_budgetItems (toggleTheme st)
       = (if setItemThrows st ''budgetItems'' then ls_budgetItems st
          else Some (map stringifyBudgetItem (sd_budgetItems st)))
   \<and> ls_expenses (toggleTheme st)
       = (if setItemThrows st ''expenses'' then ls_expenses st
          else Some (map stringifyExpense (sd_expenses st)))
   \<and> ls_settings (toggleTheme st)
       = (if setItemThrows st ''settings'' then ls_settings st
          else Some ((sd_settings st)\<lparr>theme := (if darkMode st then ''light'' else ''dark'')\<rparr>))"
  by (simp add: toggleTheme_def saveData_def Let_def storage_set_participants_def
      storage_set_budgetItems_def storage_set_expenses_def storage_set_settings_def)

theorem toggleTheme_saves_cache_witness:
  "ls_participants
     (toggleTheme (freshState\<lparr>sd_participants := [sampleParticipant ''P001'' ''a@b.c'' ''Active''],
                              ls_participants := Some []\<rparr>))
     = Some [sampleParticipant ''P001'' ''a@b.c'' ''Active'']
   \<and> ls_settings
     (toggleTheme (freshState\<lparr>sd_participants := [sampleParticipant ''P001'' ''a@b.c'' ''Active''],
                              ls_participants := Some []\<rparr>))
     = Some \<lparr>theme = ''dark''\<rparr>"
proof -
  let ?s = "freshState\<lparr>sd_participants := [sampleParticipant ''P001'' ''a@b.c'' ''Active''],
                       ls_participants := Some []\<rparr>"
  have w: "\<not> setItemThrows ?s ''participants''" "\<not> setItemThrows ?s ''settings''"
    and d: "\<not> darkMode ?s" and t: "sd_settings ?s = \<lparr>theme = ''light''\<rparr>"
    by (simp_all add: freshState_def)
  have c: "sd_participants ?s = [sampleParticipant ''P001'' ''a@b.c'' ''Active'']"
    by simp
  from toggleTheme_saves_cache [of ?s]
  have "ls_participants (toggleTheme ?s) = Some (sd_participants ?s)"
    and "ls_settings (toggleTheme ?s) = Some ((sd_settings ?s)\<lparr>theme := ''dark''\<rparr>)"
    using w d by simp_all
  then show ?thesis
    unfolding c t by simp
qed

subsection \<open>Identifier generation\<close>

lemma replaceFirst_prefix: "pat \<noteq> [] \<Longrightarrow> replaceFirst pat (pat @ s) = s"
  by (cases pat) simp_all

lemma radixDigit_10: "isDigit c \<Longrightarrow> radixDigit 10 c = Some (digitVal c)"
  by (auto simp add: isDigit_def radixDigit_def digitVal_def Let_def)

lemma isDigit_not_white: "isDigit c \<Longrightarrow> \<not> isWhiteSpace c"
  by (auto simp add: isDigit_def isWhiteSpace_def)

lemma isDigit_not_sign: "isDigit c \<Longrightarrow> c \<noteq> CHR ''-'' \<and> c \<noteq> CHR ''+'' \<and> c \<noteq> CHR ''x'' \<and> c \<noteq> CHR ''X''"
  by (auto simp add: isDigit_def)

lemma foldl_digits:
  "list_all isDigit ds \<Longrightarrow>
   foldl (\<lambda>a c. a * 10 + (case radixDigit 10 c of Some d \<Rightarrow> d | None \<Rightarrow> 0)) a ds
     = a * 10 ^ length ds + natOfDigits ds"
  by (induction ds arbitrary: a) (simp_all add: radixDigit_10 algebra_simps)

lemma takeWhile_digits:
  "list_all isDigit ds \<Longrightarrow> takeWhile (\<lambda>c. \<exists>d. radixDigit 10 c = Some d) ds = ds"
  by (induction ds) (simp_all add: radixDigit_10)

lemma parseInt_digits:
  assumes "ds \<noteq> []" and "list_all isDigit ds"
  shows "parseInt ds = Some (int (natOfDigits ds))"
proof -
  obtain c cs where ds: "ds = c # cs" using assms(1) by (cases ds) auto
  have c: "isDigit c" and cs: "list_all isDigit cs" using assms(2) ds by auto
  have w: "dropWhile isWhiteSpace ds = ds"
    using c by (simp add: ds isDigit_not_white)
  have s: "take 1 ds \<noteq> ''-''" "take 1 ds \<noteq> ''+''"
    using isDigit_not_sign [OF c] by (simp_all add: ds)
  have h: "take 2 ds \<noteq> ''0x''" "take 2 ds \<noteq> ''0X''"
  proof -
    show "take 2 ds \<noteq> ''0x''"
    proof (cases cs)
      case Nil then show ?thesis by (simp add: ds)
    next
      case (Cons d es)
      then have "isDigit d" using cs by simp
      then show ?thesis using isDigit_not_sign [of d] by (auto simp add: ds Cons)
    qed
    show "take 2 ds \<noteq> ''0X''"
    proof (cases cs)
      case Nil then show ?thesis by (simp add: ds)
    next
      case (Cons d es)
      then have "isDigit d" using cs by simp
      then show ?thesis using isDigit_not_sign [of d] by (auto simp add: ds Cons)
    qed
  qed
  show ?thesis
    unfolding parseInt_def Let_def w
    using s h assms by (simp add: takeWhile_digits foldl_digits)
qed

lemma parseInt_wellFormed:
  assumes "prefix \<noteq> []" and "wellFormedId prefix s"
  shows "parseInt (replaceFirst prefix s) = Some (int (numericSuffix prefix s))"
proof -
  have "s = prefix @ drop (length prefix) s"
    using assms(2) by (metis append_take_drop_id wellFormedId_def)
  then have "replaceFirst prefix s = drop (length prefix) s"
    using replaceFirst_prefix [OF assms(1)] by metis
  then show ?thesis
    using assms(2) by (simp add: wellFormedId_def numericSuffix_def parseInt_digits)
qed

lemma fold_max_nat:
  "fold (\<lambda>x a. max a (int (g x))) xs (int m) = int (fold max (map g xs) m)"
proof (induction xs arbitrary: m)
  case Nil
  then show ?case by simp
next
  case (Cons x xs)
  have "max (int m) (int (g x)) = int (max (g x) m)"
    by (simp add: max_def)
  then show ?case
    using Cons.IH [of "max (g x) m"] by simp
qed

lemma fold_max_Some:
  assumes "\<And>x. x \<in> set xs \<Longrightarrow> f x = Some (int (g x))"
  shows "fold (\<lambda>x maxId. case f x of None \<Rightarrow> maxId | Some idNum \<Rightarrow> if idNum > maxId then idNum else maxId) xs (int m)
         = int (Max (insert m (g ` set xs)))"
proof -
  have "fold (\<lambda>x maxId. case f x of None \<Rightarrow> maxId | Some idNum \<Rightarrow> if idNum > maxId then idNum else maxId) xs (int m)
        = fold (\<lambda>x a. max a (int (g x))) xs (int m)"
    by (rule fold_cong) (auto simp add: assms max_def)
  also have "\<dots> = int (fold max (map g xs) m)"
    by (rule fold_max_nat)
  also have "fold max (map g xs) m = Max (insert m (g ` set xs))"
    using Max.set_eq_fold [of m "map g xs"] by simp
  finally show ?thesis .
qed


lemma showInt_Suc: "showInt (int n + 1) = showNat (n + 1)"
  by (simp add: showInt_def nat_add_distrib)

lemma maxParticipantId_wellFormed:
  assumes "list_all (\<lambda>p. wellFormedId ''P'' (p_id p)) ps"
  shows "maxParticipantId ps = int (Max (insert 0 ((\<lambda>p. numericSuffix ''P'' (p_id p)) ` set ps)))"
proof -
  have "\<And>p. p \<in> set ps \<Longrightarrow>
          parseInt (replaceFirst ''P'' (p_id p)) = Some (int (numericSuffix ''P'' (p_id p)))"
    using assms by (simp add: list_all_iff parseInt_wellFormed)
  from fold_max_Some [of ps "\<lambda>p. parseInt (replaceFirst ''P'' (p_id p))"
      "\<lambda>p. numericSuffix ''P'' (p_id p)" 0, OF this]
  show ?thesis by (simp add: maxParticipantId_def)
qed

lemma maxExpenseId_wellFormed:
  assumes "list_all (\<lambda>e. wellFormedId ''EXP'' (e_id e)) es"
  shows "maxExpenseId es = int (Max (insert 0 ((\<lambda>e. numericSuffix ''EXP'' (e_id e)) ` set es)))"
proof -
  have "\<And>e. e \<in> set es \<Longrightarrow>
          parseInt (replaceFirst ''EXP'' (e_id e)) = Some (int (numericSuffix ''EXP'' (e_id e)))"
    using assms by (simp add: list_all_iff parseInt_wellFormed)
  from fold_max_Some [of es "\<lambda>e. parseInt (replaceFirst ''EXP'' (e_id e))"
      "\<lambda>e. numericSuffix ''EXP'' (e_id e)" 0, OF this]
  show ?thesis by (simp add: maxExpenseId_def)
qed

lemma padded_1: "padStart 3 (CHR ''0'') (showInt 1) = ''001''"
  by code_simp

lemma padded_3: "padStart 3 (CHR ''0'') (showNat 3) = ''003''"
  by code_simp

lemma padded_6: "padStart 3 (CHR ''0'') (showInt 6) = ''006''"
  by code_simp

text \<open>
  C4. Over a collection whose identifiers have the format of the data model,
  \<^verbatim>\<open>generateParticipantId\<close> returns \<^verbatim>\<open>P\<close> followed by the largest numeric suffix
  plus one, padded with zeros to three digits, and \<^verbatim>\<open>generateExpenseId\<close> does the
  same with \<^verbatim>\<open>EXP\<close>; the largest suffix of no identifier is 0, so the empty
  collection gives \<^verbatim>\<open>P001\<close> (\<^verbatim>\<open>EXP001\<close>), and the identifiers \<^verbatim>\<open>P001\<close>,
  \<^verbatim>\<open>P005\<close> give \<^verbatim>\<open>P006\<close>.
\<close>

theorem nextId_max_suffix_plus_one:
  "(list_all (\<lambda>p. wellFormedId ''P'' (p_id p)) (getParticipants st) \<longrightarrow>
      generateParticipantId st
        = ''P'' @ padStart 3 (CHR ''0'')
            (showNat (Max (insert 0 ((\<lambda>p. numericSuffix ''P'' (p_id p)) ` set (getParticipants st))) + 1)))
   \<and> (list_all (\<lambda>e. wellFormedId ''EXP'' (e_id e)) (getExpenses st) \<longrightarrow>
      generateExpenseId st
        = ''EXP'' @ padStart 3 (CHR ''0'')
            (showNat (Max (insert 0 ((\<lambda>e. numericSuffix ''EXP'' (e_id e)) ` set (getExpenses st))) + 1)))
   \<and> (getParticipants st = [] \<longrightarrow> generateParticipantId st = ''P001'')
   \<and> (map p_id (getParticipants st) = [''P001'', ''P005''] \<longrightarrow> generateParticipantId st = ''P006'')
   \<and> (getExpenses st = [] \<longrightarrow> generateExpenseId st = ''EXP001'')"
proof (intro conjI impI)
  assume "list_all (\<lambda>p. wellFormedId ''P'' (p_id p)) (getParticipants st)"
  then show "generateParticipantId st
        = ''P'' @ padStart 3 (CHR ''0'')
            (showNat (Max (insert 0 ((\<lambda>p. numericSuffix ''P'' (p_id p)) ` set (getParticipants st))) + 1))"
    by (simp add: generateParticipantId_def Let_def maxParticipantId_wellFormed showInt_Suc)
next
  assume "list_all (\<lambda>e. wellFormedId ''EXP'' (e_id e)) (getExpenses st)"
  then show "generateExpenseId st
        = ''EXP'' @ padStart 3 (CHR ''0'')
            (showNat (Max (insert 0 ((\<lambda>e. numericSuffix ''EXP'' (e_id e)) ` set (getExpenses st))) + 1))"
    by (simp add: generateExpenseId_def Let_def maxExpenseId_wellFormed showInt_Suc)
next
  assume "getParticipants st = []"
  then show "generateParticipantId st = ''P001''"
    by (simp add: generateParticipantId_def Let_def maxParticipantId_def padded_1)
next
  assume "getExpenses st = []"
  then show "generateExpenseId st = ''EXP001''"
    by (simp add: generateExpenseId_def Let_def maxExpenseId_def padded_1)
next
  assume ids: "map p_id (getParticipants st) = [''P001'', ''P005'']"
  then obtain a b where ps: "getParticipants st = [a, b]" "p_id a = ''P001''" "p_id b = ''P005''"
    by (cases "getParticipants st"; simp; cases "tl (getParticipants st)"; auto)
  have wf: "list_all (\<lambda>p. wellFormedId ''P'' (p_id p)) (getParticipants st)"
    by (simp add: ps wellFormedId_def isDigit_def)
  have "maxParticipantId (getParticipants st) = 5"
    unfolding maxParticipantId_wellFormed [OF wf]
    by (simp add: ps numericSuffix_def digitVal_def)
  then show "generateParticipantId st = ''P006''"
    by (simp add: generateParticipantId_def Let_def padded_6)
qed

theorem nextId_max_suffix_plus_one_witness:
  "generateParticipantId
     (freshState\<lparr>ls_participants :=
        Some [sampleParticipant ''P001'' ''a@b.c'' ''Active'',
              sampleParticipant ''P005'' ''d@e.f'' ''Active''],
      ls_expenses := Some [sampleExpense ''EXP002'' ''Training'' (Some 400)]\<rparr>) = ''P006''
   \<and> generateExpenseId
     (freshState\<lparr>ls_participants :=
        Some [sampleParticipant ''P001'' ''a@b.c'' ''Active'',
              sampleParticipant ''P005'' ''d@e.f'' ''Active''],
      ls_expenses := Some [sampleExpense ''EXP002'' ''Training'' (Some 400)]\<rparr>) = ''EXP003''
   \<and> generateParticipantId freshState = ''P001''
   \<and> generateExpenseId freshState = ''EXP001''"
proof -
  let ?st = "freshState\<lparr>ls_participants :=
        Some [sampleParticipant ''P001'' ''a@b.c'' ''Active'',
              sampleParticipant ''P005'' ''d@e.f'' ''Active''],
      ls_expenses := Some [sampleExpense ''EXP002'' ''Training'' (Some 400)]\<rparr>"
  have ps: "getParticipants ?st = [sampleParticipant ''P001'' ''a@b.c'' ''Active'',
              sampleParticipant ''P005'' ''d@e.f'' ''Active'']"
    by (simp add: getParticipants_def storage_get_def)
  have es: "getExpenses ?st = [sampleExpense ''EXP002'' ''Training'' (Some (Fin 400))]"
    by (simp add: getExpenses_def storage_get_def parseExpense_def sampleExpense_def parseNumber_def)
  have e0: "getExpenses freshState = []" and p0: "getParticipants freshState = []"
    by (simp_all add: getExpenses_def getParticipants_def storage_get_def freshState_def)
  have wfe: "list_all (\<lambda>e. wellFormedId ''EXP'' (e_id e)) (getExpenses ?st)"
    unfolding es by (simp add: sampleExpense_def wellFormedId_def isDigit_def)
  have ids: "map p_id (getParticipants ?st) = [''P001'', ''P005'']"
    unfolding ps by (simp add: sampleParticipant_def)
  note T = nextId_max_suffix_plus_one [of ?st]
  have A: "generateExpenseId ?st
        = ''EXP'' @ padStart 3 (CHR ''0'')
            (showNat (Max (insert 0 ((\<lambda>e. numericSuffix ''EXP'' (e_id e)) ` set (getExpenses ?st))) + 1))"
    using T wfe by blast
  have M: "Max (insert 0 ((\<lambda>e. numericSuffix ''EXP'' (e_id e)) ` set (getExpenses ?st))) + 1 = 3"
    unfolding es by (simp add: sampleExpense_def numericSuffix_def digitVal_def)
  have "generateExpenseId ?st = ''EXP003''"
    unfolding A M by (simp add: padded_3)
  moreover have "generateParticipantId ?st = ''P006''"
    using T ids by blast
  moreover have "generateParticipantId freshState = ''P001''"
    using nextId_max_suffix_plus_one [of freshState] p0 by blast
  moreover have "generateExpenseId freshState = ''EXP001''"
    using nextId_max_suffix_plus_one [of freshState] e0 by blast
  ultimately show ?thesis by simp
qed

lemma fold_max_parsed:
  fixes a :: int and f :: "'a \<Rightarrow> int option"
  assumes "0 \<le> a"
  shows "fold (\<lambda>x maxId. case f x of None \<Rightarrow> maxId | Some idNum \<Rightarrow> if idNum > maxId then idNum else maxId) xs a
         = Max (insert a ((\<lambda>x. case f x of None \<Rightarrow> 0 | Some n \<Rightarrow> n) ` set xs))"
  using assms
proof (induction xs arbitrary: a)
  case Nil
  then show ?case by simp
next
  case (Cons x xs)
  let ?h = "\<lambda>x. case f x of None \<Rightarrow> (0::int) | Some n \<Rightarrow> n"
  have step: "(case f x of None \<Rightarrow> a | Some idNum \<Rightarrow> if idNum > a then idNum else a) = max a (?h x)"
    using Cons.prems by (cases "f x") (auto simp add: max_def)
  have nonneg: "0 \<le> max a (?h x)"
    using Cons.prems by simp
  have "Max (insert (max a (?h x)) (?h ` set xs)) = Max (insert a (?h ` set (x # xs)))"
    by (cases "xs = []") (simp_all add: max.assoc)
  then show ?case
    using Cons.IH [OF nonneg] by (simp add: step)
qed

lemma maxParticipantId_parsed:
  "maxParticipantId ps = Max (insert 0 ((\<lambda>p. parsedIdNumber ''P'' (p_id p)) ` set ps))"
  unfolding maxParticipantId_def parsedIdNumber_def
  by (rule fold_max_parsed) simp

lemma parsedIdNumber_P000: "parsedIdNumber ''P'' ''P000'' = 0"
  by code_simp

text \<open>
  C5, as the code has it. An identifier on which \<^verbatim>\<open>parseInt\<close> returns \<open>NaN\<close> once
  the first \<^verbatim>\<open>P\<close> is removed (such as \<^verbatim>\<open>TEST001\<close>, \<^verbatim>\<open>Pabc\<close> or \<^verbatim>\<open>P0x\<close>) adds
  nothing to the maximum: the generated identifier is the same as with that
  identifier replaced by \<^verbatim>\<open>P000\<close>, and the same as with its record left out,
  one more than the largest number read from the other identifiers.
  Every step is total on strings, so generation returns for every collection.
  The other identifiers are read as numbers below \<open>2 ^ 53\<close>, the range in which
  the numbers of the page are the integers themselves.
\<close>

theorem unparsable_id_counts_as_zero:
  assumes "parseInt (replaceFirst ''P'' (p_id p)) = None"
      and "list_all (\<lambda>q. parsedIdNumber ''P'' (p_id q) < 2 ^ 53) (xs @ ys)"
      and "getParticipants st = xs @ p # ys"
      and "getParticipants st0 = xs @ p\<lparr>p_id := ''P000''\<rparr> # ys"
      and "getParticipants st1 = xs @ ys"
  shows "generateParticipantId st = generateParticipantId st0
         \<and> generateParticipantId st = generateParticipantId st1
         \<and> generateParticipantId st
             = ''P'' @ padStart 3 (CHR ''0'')
                 (showInt (Max (insert 0 ((\<lambda>q. parsedIdNumber ''P'' (p_id q)) ` set (xs @ ys))) + 1))"
proof -
  have zero: "parsedIdNumber ''P'' (p_id p) = 0"
    using assms(1) by (simp add: parsedIdNumber_def)
  have m: "maxParticipantId (getParticipants st) = maxParticipantId (getParticipants st1)"
    unfolding maxParticipantId_parsed assms(3) assms(5) by (simp add: zero image_Un)
  have m0: "maxParticipantId (getParticipants st) = maxParticipantId (getParticipants st0)"
    unfolding maxParticipantId_parsed assms(3) assms(4) by (simp add: zero parsedIdNumber_P000)
  have v: "generateParticipantId st1
             = ''P'' @ padStart 3 (CHR ''0'')
                 (showInt (Max (insert 0 ((\<lambda>q. parsedIdNumber ''P'' (p_id q)) ` set (xs @ ys))) + 1))"
    unfolding generateParticipantId_def Let_def maxParticipantId_parsed assms(5) by (rule refl)
  have e: "generateParticipantId st = generateParticipantId st0"
    "generateParticipantId st = generateParticipantId st1"
    using m m0 by (simp_all add: generateParticipantId_def Let_def)
  show ?thesis
    using e v by simp
qed

text \<open>
  C5, as stated, fails on a suffix that is not numeric but begins with digits:
  \<^verbatim>\<open>parseInt\<close> reads the leading digits, so \<^verbatim>\<open>P12abc\<close> counts as 12 and the next
  identifier is \<^verbatim>\<open>P013\<close>, not the \<^verbatim>\<open>P001\<close> that suffix 0 gives.
\<close>

theorem nonNumeric_suffix_counterexample:
  "\<not> list_all isDigit (drop (length ''P'') ''P12abc'')
   \<and> generateParticipantId
       (freshState\<lparr>ls_participants := Some [sampleParticipant ''P12abc'' ''a@b.c'' ''Active'']\<rparr>) = ''P013''
   \<and> generateParticipantId
       (freshState\<lparr>ls_participants := Some [sampleParticipant ''P000'' ''a@b.c'' ''Active'']\<rparr>) = ''P001''"
proof -
  have a: "\<not> list_all isDigit (drop (length ''P'') ''P12abc'')"
    by (simp add: isDigit_def)
  have b: "maxParticipantId [sampleParticipant ''P12abc'' ''a@b.c'' ''Active''] = 12"
    unfolding maxParticipantId_def by code_simp
  have c: "maxParticipantId [sampleParticipant ''P000'' ''a@b.c'' ''Active''] = 0"
    unfolding maxParticipantId_def by code_simp
  have d: "padStart 3 (CHR ''0'') (showInt 13) = ''013''"
    by code_simp
  show ?thesis
    using a by (simp add: generateParticipantId_def Let_def getParticipants_def storage_get_def b c d padded_1)
qed

theorem unparsable_id_counts_as_zero_witness:
  "generateParticipantId
     (freshState\<lparr>ls_participants :=
        Some [sampleParticipant ''P001'' ''a@b.c'' ''Active'',
              sampleParticipant ''TEST001'' ''test@example.com'' ''Active'']\<rparr>) = ''P002''
   \<and> generateParticipantId
     (freshState\<lparr>ls_participants :=
        Some [sampleParticipant ''P001'' ''a@b.c'' ''Active'',
              sampleParticipant ''P000'' ''test@example.com'' ''Active'']\<rparr>) = ''P002''"
proof -
  let ?p = "sampleParticipant ''TEST001'' ''test@example.com'' ''Active''"
  let ?sa = "freshState\<lparr>ls_participants :=
        Some [sampleParticipant ''P001'' ''a@b.c'' ''Active'', ?p]\<rparr>"
  let ?sb = "freshState\<lparr>ls_participants :=
        Some [sampleParticipant ''P001'' ''a@b.c'' ''Active'',
              sampleParticipant ''P000'' ''test@example.com'' ''Active'']\<rparr>"
  let ?sc = "freshState\<lparr>ls_participants := Some [sampleParticipant ''P001'' ''a@b.c'' ''Active'']\<rparr>"
  have f: "parseInt (replaceFirst ''P'' (p_id ?p)) = None"
    by code_simp
  have n: "parsedIdNumber ''P'' ''P001'' = 1"
    by code_simp
  have b: "list_all (\<lambda>q. parsedIdNumber ''P'' (p_id q) < 2 ^ 53)
             ([sampleParticipant ''P001'' ''a@b.c'' ''Active''] @ [])"
    by (simp add: sampleParticipant_def n)
  have g: "getParticipants ?sa = [sampleParticipant ''P001'' ''a@b.c'' ''Active''] @ ?p # []"
    by (simp add: getParticipants_def storage_get_def)
  have g0: "getParticipants ?sb = [sampleParticipant ''P001'' ''a@b.c'' ''Active''] @ ?p\<lparr>p_id := ''P000''\<rparr> # []"
    by (simp add: getParticipants_def storage_get_def sampleParticipant_def)
  have g1: "getParticipants ?sc = [sampleParticipant ''P001'' ''a@b.c'' ''Active''] @ []"
    by (simp add: getParticipants_def storage_get_def)
  have m: "maxParticipantId [sampleParticipant ''P001'' ''a@b.c'' ''Active''] = 1"
    unfolding maxParticipantId_def by code_simp
  have d: "padStart 3 (CHR ''0'') (showInt 2) = ''002''"
    by code_simp
  have r: "generateParticipantId ?sc = ''P002''"
    by (simp add: generateParticipantId_def Let_def getParticipants_def storage_get_def m d)
  note T = unparsable_id_counts_as_zero [OF f b g g0 g1]
  have e1: "generateParticipantId ?sa = generateParticipantId ?sc"
    using T by blast
  have e0: "generateParticipantId ?sa = generateParticipantId ?sb"
    using T by blast
  show ?thesis
    by (intro conjI) (metis e1 r, metis e0 e1 r)
qed

subsection \<open>Budget items\<close>

lemma stringify_parse_number: "stringifyNumber (parseNumber j) = j"
  by (cases j) (simp_all add: parseNumber_def)

lemma stringify_parse_budgetItem: "stringifyBudgetItem (parseBudgetItem b) = b"
  by (simp add: stringifyBudgetItem_def parseBudgetItem_def stringify_parse_number)

lemma stringify_getBudgetItems:
  "map stringifyBudgetItem (getBudgetItems st) = storage_get (ls_budgetItems st) []"
  by (simp add: getBudgetItems_def stringify_parse_budgetItem comp_def)

text \<open>
  C2. \<^verbatim>\<open>addBudgetItem\<close> on empty storage with the category \<^verbatim>\<open>Food\<close>, the amount
  \<^verbatim>\<open>abc\<close> and the priority \<^verbatim>\<open>High\<close>. The amount is a non-empty string that does
  not parse as a number, \<^verbatim>\<open>parseFloat\<close> returns \<open>NaN\<close> on it, and the call succeeds:
  the item is returned and appended to the cached collection with amount \<open>NaN\<close>
  and written to the store with amount \<^verbatim>\<open>null\<close>. The function tests the amount
  for being empty only; \<^verbatim>\<open>addFunds\<close>, the other place where the page reads an
  amount, tests it with \<^verbatim>\<open>isNaN\<close> and reports an invalid amount.
\<close>

theorem addBudgetItem_nonNumeric_amount:
  "parseFloat ''abc'' = NaN
   \<and> fst (addBudgetItem ''2025-01-01T08:00:00.000Z'' (sampleBudgetForm ''Food'' ''abc'') freshState)
       = Inr (sampleBudgetItem ''Food'' (Some NaN))
   \<and> sd_budgetItems (snd (addBudgetItem ''2025-01-01T08:00:00.000Z'' (sampleBudgetForm ''Food'' ''abc'') freshState))
       = [sampleBudgetItem ''Food'' (Some NaN)]
   \<and> ls_budgetItems freshState = None
   \<and> ls_budgetItems (snd (addBudgetItem ''2025-01-01T08:00:00.000Z'' (sampleBudgetForm ''Food'' ''abc'') freshState))
       = Some [sampleBudgetItem ''Food'' None]"
proof -
  have p: "parseFloat ''abc'' = NaN"
    by code_simp
  have d: "splitHead (CHR ''T'') ''2025-01-01T08:00:00.000Z'' = ''2025-01-01''"
    by (simp add: splitHead_def)
  have g: "getBudgetItems freshState = []"
    by (simp add: getBudgetItems_def storage_get_def freshState_def)
  have w: "\<not> setItemThrows freshState ''budgetItems''" and l: "ls_budgetItems freshState = None"
    by (simp_all add: freshState_def)
  show ?thesis
    by (simp add: addBudgetItem_def Let_def g p d w l sampleBudgetForm_def sampleBudgetItem_def
        saveBudgetItems_def storage_set_budgetItems_def stringifyBudgetItem_def)
qed

lemma parse_stringify_splice1:
  "map parseBudgetItem (map stringifyBudgetItem (splice1 i (getBudgetItems st)))
     = splice1 i (getBudgetItems st)"
proof -
  have "map stringifyBudgetItem (splice1 i (getBudgetItems st))
          = splice1 i (storage_get (ls_budgetItems st) [])"
    by (simp add: splice1_def take_map [symmetric] drop_map [symmetric] stringify_getBudgetItems
        del: take_map drop_map)
  then show ?thesis
    by (simp add: getBudgetItems_def splice1_def take_map drop_map)
qed

text \<open>
  C8. Once the user has confirmed the dialog, \<^verbatim>\<open>removeBudgetItem\<close> with an index
  below 0 or at least the length of the stored collection (the length itself
  included) ends in the error \<^verbatim>\<open>Budget item not found\<close> and leaves the state as
  it was; with an index inside the range it drops exactly the item at that position
  from the cached collection and, when \<^verbatim>\<open>setItem\<close> accepts the write, from the
  stored one, the other items keeping their order. A declined dialog ends the call
  with nothing shown and nothing changed.
\<close>

theorem removeBudgetItem_by_index:
  "(index < 0 \<or> int (length (getBudgetItems st)) \<le> index \<longrightarrow>
      removeBudgetItem True index st = (Some (Inl BudgetItemNotFound), st))
   \<and> (0 \<le> index \<and> index < int (length (getBudgetItems st)) \<longrightarrow>
      fst (removeBudgetItem True index st) = Some (Inr ())
      \<and> sd_budgetItems (snd (removeBudgetItem True index st))
          = take (nat index) (getBudgetItems st) @ drop (nat index + 1) (getBudgetItems st)
      \<and> (if setItemThrows st ''budgetItems''
          then ls_budgetItems (snd (removeBudgetItem True index st)) = ls_budgetItems st
          else getBudgetItems (snd (removeBudgetItem True index st))
                 = take (nat index) (getBudgetItems st) @ drop (nat index + 1) (getBudgetItems st)
               \<and> length (getBudgetItems (snd (removeBudgetItem True index st)))
                   = length (getBudgetItems st) - 1))
   \<and> removeBudgetItem False index st = (None, st)"
proof (intro conjI impI)
  assume "index < 0 \<or> int (length (getBudgetItems st)) \<le> index"
  then show "removeBudgetItem True index st = (Some (Inl BudgetItemNotFound), st)"
    by (auto simp add: removeBudgetItem_def Let_def)
next
  show "removeBudgetItem False index st = (None, st)"
    by (simp add: removeBudgetItem_def)
next
  assume r: "0 \<le> index \<and> index < int (length (getBudgetItems st))"
  then have eq: "removeBudgetItem True index st
                  = (Some (Inr ()), saveBudgetItems (splice1 (nat index) (getBudgetItems st)) st)"
    by (simp add: removeBudgetItem_def Let_def)
  show "fst (removeBudgetItem True index st) = Some (Inr ())"
    by (simp add: eq)
  show "sd_budgetItems (snd (removeBudgetItem True index st))
          = take (nat index) (getBudgetItems st) @ drop (nat index + 1) (getBudgetItems st)"
    by (simp add: eq saveBudgetItems_def storage_set_budgetItems_def splice1_def)
  have len: "length (splice1 (nat index) (getBudgetItems st)) = length (getBudgetItems st) - 1"
    using r by (auto simp add: splice1_def)
  have g: "\<not> setItemThrows st ''budgetItems'' \<Longrightarrow>
        getBudgetItems (snd (removeBudgetItem True index st)) = splice1 (nat index) (getBudgetItems st)"
    using parse_stringify_splice1 [of "nat index" st]
    by (simp add: eq saveBudgetItems_def storage_set_budgetItems_def getBudgetItems_def storage_get_def)
  show "if setItemThrows st ''budgetItems''
          then ls_budgetItems (snd (removeBudgetItem True index st)) = ls_budgetItems st
          else getBudgetItems (snd (removeBudgetItem True index st))
                 = take (nat index) (getBudgetItems st) @ drop (nat index + 1) (getBudgetItems st)
               \<and> length (getBudgetItems (snd (removeBudgetItem True index st)))
                   = length (getBudgetItems st) - 1"
  proof (cases "setItemThrows st ''budgetItems''")
    case True
    then show ?thesis
      by (simp add: eq saveBudgetItems_def storage_set_budgetItems_def)
  next
    case False
    then show ?thesis
      using g len by (simp add: splice1_def)
  qed
qed

theorem removeBudgetItem_by_index_witness:
  "removeBudgetItem True 2
     (freshState\<lparr>ls_budgetItems := Some [sampleBudgetItem ''Training'' (Some 1000),
                                         sampleBudgetItem ''Venue'' (Some 250)]\<rparr>)
     = (Some (Inl BudgetItemNotFound),
        freshState\<lparr>ls_budgetItems := Some [sampleBudgetItem ''Training'' (Some 1000),
                                         sampleBudgetItem ''Venue'' (Some 250)]\<rparr>)
   \<and> getBudgetItems (snd (removeBudgetItem True 0
     (freshState\<lparr>ls_budgetItems := Some [sampleBudgetItem ''Training'' (Some 1000),
                                         sampleBudgetItem ''Venue'' (Some 250)]\<rparr>)))
     = [sampleBudgetItem ''Venue'' (Some (Fin 250))]"
proof -
  let ?s = "freshState\<lparr>ls_budgetItems := Some [sampleBudgetItem ''Training'' (Some 1000),
                                         sampleBudgetItem ''Venue'' (Some 250)]\<rparr>"
  have g: "getBudgetItems ?s = [sampleBudgetItem ''Training'' (Some (Fin 1000)),
                               sampleBudgetItem ''Venue'' (Some (Fin 250))]"
    by (simp add: getBudgetItems_def storage_get_def parseBudgetItem_def parseNumber_def
        sampleBudgetItem_def)
  have w: "\<not> setItemThrows ?s ''budgetItems''"
    by (simp add: freshState_def)
  note T = removeBudgetItem_by_index [of 2 ?s] and U = removeBudgetItem_by_index [of 0 ?s]
  have a: "removeBudgetItem True 2 ?s = (Some (Inl BudgetItemNotFound), ?s)"
    using T unfolding g by simp
  have b: "getBudgetItems (snd (removeBudgetItem True 0 ?s)) = [sampleBudgetItem ''Venue'' (Some (Fin 250))]"
    using U w unfolding g by simp
  show ?thesis
    using a b by simp
qed

subsection \<open>Monthly budget report\<close>

lemma toDouble_0: "toDouble 0 = Fin 0"
  by (simp add: toDouble_def)

lemma toDouble_400: "toDouble 400 = Fin 400" "toDouble (- 400) = Fin (- 400)"
  by code_simp+

lemma zero_budget_state:
  "snd (addExpense ''2025-01-15T08:00:00.000Z'' (sampleExpenseForm ''Training'' ''400'')
           (snd (addBudgetItem ''2025-01-01T08:00:00.000Z'' (sampleBudgetForm ''Training'' ''0'') freshState)))
   = freshState\<lparr>sd_budgetItems := [sampleBudgetItem ''Training'' (Some (Fin 0))],
                 ls_budgetItems := Some [sampleBudgetItem ''Training'' (Some 0)],
                 sd_expenses := [sampleExpense ''EXP001'' ''Training'' (Some (Fin 400))],
                 ls_expenses := Some [sampleExpense ''EXP001'' ''Training'' (Some 400)]\<rparr>"
proof -
  have p0: "parseFloat ''0'' = Fin 0" and p400: "parseFloat ''400'' = Fin 400"
    by code_simp+
  have d: "splitHead (CHR ''T'') ''2025-01-01T08:00:00.000Z'' = ''2025-01-01''"
    by (simp add: splitHead_def)
  have g: "getBudgetItems freshState = []"
    by (simp add: getBudgetItems_def storage_get_def freshState_def)
  have w: "\<not> setItemThrows freshState ''budgetItems''" "\<not> setItemThrows freshState ''expenses''"
    and l: "ls_expenses freshState = None"
    by (simp_all add: freshState_def)
  have a: "snd (addBudgetItem ''2025-01-01T08:00:00.000Z'' (sampleBudgetForm ''Training'' ''0'') freshState)
     = freshState\<lparr>sd_budgetItems := [sampleBudgetItem ''Training'' (Some (Fin 0))],
                 ls_budgetItems := Some [sampleBudgetItem ''Training'' (Some 0)]\<rparr>"
    by (simp add: addBudgetItem_def Let_def g p0 d w sampleBudgetForm_def sampleBudgetItem_def
        saveBudgetItems_def storage_set_budgetItems_def stringifyBudgetItem_def)
  show ?thesis
    unfolding a
    by (simp add: addExpense_def Let_def sampleExpenseForm_def getExpenses_def storage_get_def l w
        generateExpenseId_def maxExpenseId_def padded_1 p400 saveExpenses_def storage_set_expenses_def
        stringifyExpense_def sampleExpense_def)
qed

text \<open>
  C1. What \<^verbatim>\<open>generateMonthlyReport\<close> computes for a budget item of amount 0 with a
  matching expense: the utilization is the string \<^verbatim>\<open>Infinity%\<close> when something was
  spent and \<^verbatim>\<open>NaN%\<close> when the expenses sum to 0, and that string is written to
  the CSV. The page gets there from empty storage by \<^verbatim>\<open>addBudgetItem\<close> with amount
  \<^verbatim>\<open>0\<close> and \<^verbatim>\<open>addExpense\<close> with amount \<^verbatim>\<open>400\<close>. The division is not guarded,
  unlike the one of \<^verbatim>\<open>generateROIReport\<close>, which writes \<^verbatim>\<open>N/A\<close> when the
  investment is 0.
\<close>

theorem monthlyReport_zero_budget:
  "reportData fmt [sampleBudgetItem ''Training'' (Some (Fin 0))]
                  [sampleExpense ''EXP001'' ''Training'' (Some (Fin 400))]
     = [[(''Category'', JStr ''Training''), (''Budget'', JNum (Fin 0)), (''Spent'', JNum (Fin 400)),
         (''Remaining'', JNum (Fin (- 400))), (''Utilization'', JStr ''Infinity%'')]]
   \<and> reportData fmt [sampleBudgetItem ''Training'' (Some (Fin 0))]
                  [sampleExpense ''EXP001'' ''Training'' (Some (Fin 0))]
     = [[(''Category'', JStr ''Training''), (''Budget'', JNum (Fin 0)), (''Spent'', JNum (Fin 0)),
         (''Remaining'', JNum (Fin 0)), (''Utilization'', JStr ''NaN%'')]]
   \<and> generateMonthlyReport fmt
        (snd (addExpense ''2025-01-15T08:00:00.000Z'' (sampleExpenseForm ''Training'' ''400'')
           (snd (addBudgetItem ''2025-01-01T08:00:00.000Z'' (sampleBudgetForm ''Training'' ''0'')
                   freshState))))
     = Inr (''Category,Budget,Spent,Remaining,Utilization'' @ [CHR 0x0A] @ ''Training,,400,-400,Infinity%'')"
proof (intro conjI)
  show r1: "reportData fmt [sampleBudgetItem ''Training'' (Some (Fin 0))]
                  [sampleExpense ''EXP001'' ''Training'' (Some (Fin 400))]
     = [[(''Category'', JStr ''Training''), (''Budget'', JNum (Fin 0)), (''Spent'', JNum (Fin 400)),
         (''Remaining'', JNum (Fin (- 400))), (''Utilization'', JStr ''Infinity%'')]]"
    by (simp add: reportData_def spentOn_def Let_def sampleBudgetItem_def sampleExpense_def
        num_sub_def numToString_def toDouble_400)
  show "reportData fmt [sampleBudgetItem ''Training'' (Some (Fin 0))]
                  [sampleExpense ''EXP001'' ''Training'' (Some (Fin 0))]
     = [[(''Category'', JStr ''Training''), (''Budget'', JNum (Fin 0)), (''Spent'', JNum (Fin 0)),
         (''Remaining'', JNum (Fin 0)), (''Utilization'', JStr ''NaN%'')]]"
    by (simp add: reportData_def spentOn_def Let_def sampleBudgetItem_def sampleExpense_def
        num_sub_def numToString_def toDouble_0)
  let ?s = "freshState\<lparr>sd_budgetItems := [sampleBudgetItem ''Training'' (Some (Fin 0))],
                 ls_budgetItems := Some [sampleBudgetItem ''Training'' (Some 0)],
                 sd_expenses := [sampleExpense ''EXP001'' ''Training'' (Some (Fin 400))],
                 ls_expenses := Some [sampleExpense ''EXP001'' ''Training'' (Some 400)]\<rparr>"
  have b: "getBudgetItems ?s = [sampleBudgetItem ''Training'' (Some (Fin 0))]"
    by (simp add: getBudgetItems_def storage_get_def parseBudgetItem_def parseNumber_def
        sampleBudgetItem_def)
  have e: "getExpenses ?s = [sampleExpense ''EXP001'' ''Training'' (Some (Fin 400))]"
    by (simp add: getExpenses_def storage_get_def parseExpense_def parseNumber_def
        sampleExpense_def)
  have s400: "showInt 400 = ''400''" and sm400: "showInt (- 400) = ''-400''"
    by code_simp+
  show "generateMonthlyReport fmt
        (snd (addExpense ''2025-01-15T08:00:00.000Z'' (sampleExpenseForm ''Training'' ''400'')
           (snd (addBudgetItem ''2025-01-01T08:00:00.000Z'' (sampleBudgetForm ''Training'' ''0'')
                   freshState))))
     = Inr (''Category,Budget,Spent,Remaining,Utilization'' @ [CHR 0x0A] @ ''Training,,400,-400,Infinity%'')"
    unfolding zero_budget_state generateMonthlyReport_def Let_def b e r1
    by (simp add: downloadCSV_def csvCells_def csvCell_def getProp_def numToString_def s400 sm400)
qed

subsection \<open>CSV export\<close>

lemma joinItem_csvCell_falsy: "\<not> truthy v \<Longrightarrow> joinItem fmt (csvCell v) = []"
  by (simp add: csvCell_def)

text \<open>
  C9. \<^verbatim>\<open>downloadCSV\<close> replaces a field that is falsy (the number 0, \<open>NaN\<close>,
  \<^verbatim>\<open>false\<close>, the empty string, \<^verbatim>\<open>null\<close>, \<^verbatim>\<open>undefined\<close> or a missing property) by
  the empty string before it is written, so its cell in the CSV text is empty: the
  text is the header line followed by one line per record, the cells of a line joined
  by commas, and the cell of every falsy field is the empty string.
\<close>

theorem downloadCSV_falsy_cells:
  "(\<not> truthy v \<longrightarrow> joinItem fmt (csvCell v) = [])
   \<and> (downloadCSV fmt data = Inr content \<longrightarrow>
        data \<noteq> []
        \<and> content = join [CHR 0x0A]
                      (join '','' (map fst (hd data))
                       # map (\<lambda>row. join '','' (csvCells fmt (map fst (hd data)) row)) data)
        \<and> (\<forall>row \<in> set data. \<forall>j < length (hd data).
              \<not> truthy (getProp row (fst (hd data ! j)))
              \<longrightarrow> csvCells fmt (map fst (hd data)) row ! j = []))"
proof (intro conjI impI)
  assume "\<not> truthy v"
  then show "joinItem fmt (csvCell v) = []"
    by (rule joinItem_csvCell_falsy)
next
  assume d: "downloadCSV fmt data = Inr content"
  then show "data \<noteq> []"
    by (auto simp add: downloadCSV_def)
  from d show "content = join [CHR 0x0A]
                      (join '','' (map fst (hd data))
                       # map (\<lambda>row. join '','' (csvCells fmt (map fst (hd data)) row)) data)"
    by (cases data) (auto simp add: downloadCSV_def Let_def)
  show "\<forall>row \<in> set data. \<forall>j < length (hd data).
              \<not> truthy (getProp row (fst (hd data ! j)))
              \<longrightarrow> csvCells fmt (map fst (hd data)) row ! j = []"
    by (simp add: csvCells_def joinItem_csvCell_falsy)
qed

theorem downloadCSV_falsy_cells_witness:
  "generateReport (\<lambda>q. [])
     (freshState\<lparr>ls_participants := Some [sampleParticipant ''P001'' ''a@b.c'' ''Active'']\<rparr>)
     = Inr (''id,name,email,phone,programme,startDate,progress,status,notes,attendance,revenue,jobs,createdAt''
            @ [CHR 0x0A] @ ''P001,Thandi,a@b.c,,skills,2025-01-01,,Active,,,,,2025-01-01T08:00:00.000Z'')
   \<and> csvCells (\<lambda>q. [])
        (map fst (participantObject (sampleParticipant ''P001'' ''a@b.c'' ''Active'')))
        (participantObject (sampleParticipant ''P001'' ''a@b.c'' ''Active'')) ! 6 = []"
proof -
  let ?p = "sampleParticipant ''P001'' ''a@b.c'' ''Active''"
  let ?s = "freshState\<lparr>ls_participants := Some [?p]\<rparr>"
  let ?content = "''id,name,email,phone,programme,startDate,progress,status,notes,attendance,revenue,jobs,createdAt''
            @ [CHR 0x0A] @ ''P001,Thandi,a@b.c,,skills,2025-01-01,,Active,,,,,2025-01-01T08:00:00.000Z''"
  have g: "getParticipants ?s = [?p]"
    by (simp add: getParticipants_def storage_get_def)
  have c: "downloadCSV (\<lambda>q. []) [participantObject ?p] = Inr ?content"
    by (simp add: downloadCSV_def participantObject_def sampleParticipant_def csvCells_def
        csvCell_def getProp_def Let_def)
  have r: "generateReport (\<lambda>q. []) ?s = Inr ?content"
    unfolding generateReport_def Let_def g using c by simp
  have f: "\<not> truthy (getProp (participantObject ?p) (fst (hd [participantObject ?p] ! 6)))"
    by (simp add: participantObject_def sampleParticipant_def getProp_def)
  have l: "6 < length (hd [participantObject ?p])"
    by (simp add: participantObject_def sampleParticipant_def)
  from downloadCSV_falsy_cells [of "JNull" "\<lambda>q. []" "[participantObject ?p]" ?content] c
  have "\<forall>row \<in> set [participantObject ?p]. \<forall>j < length (hd [participantObject ?p]).
              \<not> truthy (getProp row (fst (hd [participantObject ?p] ! j)))
              \<longrightarrow> csvCells (\<lambda>q. []) (map fst (hd [participantObject ?p])) row ! j = []"
    by blast
  then have "csvCells (\<lambda>q. []) (map fst (hd [participantObject ?p])) (participantObject ?p) ! 6 = []"
    using f l by simp
  then show ?thesis
    using r by simp
qed

end
